theory Spec2Isabelle
  imports Main "HOL-Library.AList"
begin

text \<open>
  A model of \<^verbatim>\<open>src/config.ts\<close>: the class \<^verbatim>\<open>ConfigSection\<close>, which mirrors a
  JSON object held by a server, and the class \<^verbatim>\<open>ConfigWithDefaults\<close>, which reads
  and writes such a section under an optional class name and falls back to
  defaults. A method that returns a promise is modelled in two parts: what it does
  until it returns, and the callback that runs when the transport settles.
\<close>

section \<open>JSON values and JavaScript property reads\<close>

text \<open>
  The values of \<^verbatim>\<open>./json\<close>: a \<^verbatim>\<open>JSONValue\<close> is a primitive, an array or an
  object; a \<^verbatim>\<open>JSONObject\<close> maps keys to values. An object is kept as the list of
  its own properties in insertion order. Numbers are integers here: the code only
  tests them for zero and prints a status code.
\<close>

datatype json =
    JNull
  | JBool bool
  | JNum int
  | JStr string
  | JArr "json list"
  | JObj "(string \<times> json) list"

type_synonym JSONObject = "(string \<times> json) list"

datatype error =
    Error string
  | TypeError
  | Rejected string

text \<open>
  \<^verbatim>\<open>'Invalid Status: ' + success.xhr.status\<close> prints the status, a non-negative
  integer, in decimal.
\<close>

definition digit :: "nat \<Rightarrow> char" where
  "digit d = ''0123456789'' ! d"

fun show_nat :: "nat \<Rightarrow> string" where
  "show_nat n = (if n < 10 then [digit n] else show_nat (n div 10) @ [digit (n mod 10)])"

declare show_nat.simps [simp del]

text \<open>
  Truthiness of a JSON value, as \<^verbatim>\<open>||\<close> and \<^verbatim>\<open>if\<close> test it: \<^verbatim>\<open>null\<close>,
  \<^verbatim>\<open>false\<close>, \<^verbatim>\<open>0\<close> and \<^verbatim>\<open>''\<close> are falsy, every array and object is truthy.
\<close>

fun truthy_json :: "json \<Rightarrow> bool" where
  "truthy_json JNull = False"
| "truthy_json (JBool b) = b"
| "truthy_json (JNum n) = (n \<noteq> 0)"
| "truthy_json (JStr s) = (s \<noteq> [])"
| "truthy_json (JArr xs) = True"
| "truthy_json (JObj kvs) = True"

text \<open>
  The element of an array or string that a key names: the key has to be the decimal
  form of an index below the length.
\<close>

definition index_of_key :: "nat \<Rightarrow> string \<Rightarrow> nat option" where
  "index_of_key n k = List.find (\<lambda>i. show_nat i = k) [0..<n]"

text \<open>
  The own property \<open>k\<close> of a JSON value, which a read \<^verbatim>\<open>o[k]\<close> finds first:
  \<^verbatim>\<open>null\<close> has no properties and reading one throws a TypeError; an object has
  its entries; an array and a string have \<^verbatim>\<open>length\<close> and their elements; a
  number and a boolean have no own property. \<open>None\<close> says that the value has no
  own property of that name.
\<close>

fun own_property :: "json \<Rightarrow> string \<Rightarrow> error + json option" where
  "own_property JNull k = Inl TypeError"
| "own_property (JObj kvs) k = Inr (map_of kvs k)"
| "own_property (JArr xs) k =
     Inr (if k = ''length'' then Some (JNum (int (length xs)))
          else (case index_of_key (length xs) k of
                  None \<Rightarrow> None
                | Some i \<Rightarrow> Some (xs ! i)))"
| "own_property (JStr s) k =
     Inr (if k = ''length'' then Some (JNum (int (length s)))
          else (case index_of_key (length s) k of
                  None \<Rightarrow> None
                | Some i \<Rightarrow> Some (JStr [s ! i])))"
| "own_property (JBool b) k = Inr None"
| "own_property (JNum n) k = Inr None"

text \<open>
  What a read can give: \<^verbatim>\<open>undefined\<close>, a JSON value, or a value that is no JSON
  value: a function or an object that the prototypes of the language hold, such as
  \<^verbatim>\<open>{}.toString\<close> or \<^verbatim>\<open>{}.constructor\<close>. Such a value is an object, hence
  truthy.
\<close>

datatype 'n jsv =
    Undefined
  | Json json
  | Native 'n

fun truthy :: "'n jsv \<Rightarrow> bool" where
  "truthy Undefined = False"
| "truthy (Json v) = truthy_json v"
| "truthy (Native n) = True"

text \<open>
  The part of a read that the JavaScript runtime decides, not this repository:
  \<open>inherited rt obj k\<close> is what the prototype chain of the JSON value \<open>obj\<close>
  gives for a name \<open>k\<close> that is no own property of it (\<open>Undefined\<close> when the
  chain has no member of that name; with the standard \<^verbatim>\<open>Object.prototype\<close> the
  names \<^verbatim>\<open>constructor\<close>, \<^verbatim>\<open>toString\<close>, \<^verbatim>\<open>valueOf\<close>, \<^verbatim>\<open>hasOwnProperty\<close>,
  \<^verbatim>\<open>__proto__\<close> and their like are members), and \<open>native_get rt n k\<close> is the read
  \<^verbatim>\<open>n[k]\<close> on a value that is no JSON value. Either may run a getter, which may
  throw.
\<close>

record 'n runtime =
  inherited :: "json \<Rightarrow> string \<Rightarrow> error + 'n jsv"
  native_get :: "'n \<Rightarrow> string \<Rightarrow> error + 'n jsv"

text \<open>
  The property read \<^verbatim>\<open>obj[k]\<close> of a JSON value: the own property if there is
  one, what the prototype chain gives otherwise.
\<close>

definition js_get :: "'n runtime \<Rightarrow> json \<Rightarrow> string \<Rightarrow> error + 'n jsv" where
  "js_get rt obj k =
     (case own_property obj k of
        Inl e \<Rightarrow> Inl e
      | Inr (Some v) \<Rightarrow> Inr (Json v)
      | Inr None \<Rightarrow> inherited rt obj k)"


text \<open>
  A runtime for the examples below: the only inherited members are \<^verbatim>\<open>toString\<close>
  and \<^verbatim>\<open>constructor\<close>, and the constructor has the name \<^verbatim>\<open>Object\<close>.
\<close>

abbreviation example_runtime :: "string runtime" where
  "example_runtime \<equiv>
     \<lparr>inherited = (\<lambda>obj k. if k = ''toString'' \<or> k = ''constructor''
                            then Inr (Native k) else Inr Undefined),
      native_get = (\<lambda>n k. if n = ''constructor'' \<and> k = ''name''
                            then Inr (Json (JStr ''Object'')) else Inr Undefined)\<rparr>"

section \<open>The helpers imported from jupyter-js-utils\<close>

text \<open>
  The transport settings (\<^verbatim>\<open>IAjaxSettings\<close>) are objects that the section and its
  callers hold by reference, so they live in a store: a reference is an index into
  the list of allocated objects. A reference that was never allocated reads as the
  empty object and cannot be written.
\<close>

type_synonym ref = nat

type_synonym heap = "JSONObject list"

definition heap_get :: "heap \<Rightarrow> ref \<Rightarrow> JSONObject" where
  "heap_get h a = (if a < length h then h ! a else [])"

definition alloc :: "heap \<Rightarrow> JSONObject \<Rightarrow> ref \<times> heap" where
  "alloc h obj = (length h, h @ [obj])"

text \<open>The assignment \<^verbatim>\<open>a[k] = v\<close> to a property of the object at \<open>a\<close>.\<close>

definition obj_set :: "heap \<Rightarrow> ref \<Rightarrow> string \<Rightarrow> json \<Rightarrow> heap" where
  "obj_set h a k v = (if a < length h then h[a := AList.update k v (h ! a)] else h)"

text \<open>A run of such assignments to the object at \<open>a\<close>, one after the other.\<close>

fun obj_set_all :: "heap \<Rightarrow> ref \<Rightarrow> JSONObject \<Rightarrow> heap" where
  "obj_set_all h a [] = h"
| "obj_set_all h a ((k, v) # kvs) = obj_set_all (obj_set h a k v) a kvs"

text \<open>
  Modelled from the spec: \<^verbatim>\<open>utils.copy\<close> of jupyter-js-utils, whose body is not
  part of the repository. The spec calls its result "a copy (not a shared
  reference)": a newly allocated object with the properties of the argument.
\<close>

definition utils_copy :: "heap \<Rightarrow> ref \<Rightarrow> ref \<times> heap" where
  "utils_copy h a = alloc h (heap_get h a)"

text \<open>
  Modelled from the spec: \<^verbatim>\<open>utils.extend\<close> of jupyter-js-utils, whose body is not
  part of the repository. The spec calls it "a shallow merge of partial onto the
  in-memory data (keys in partial overwrite matching keys in data)": every key of
  the source is assigned, with the source's value, to the target. The spec speaks of
  objects only; a target that is no object counts as one without properties.
\<close>

fun own_props :: "json \<Rightarrow> JSONObject" where
  "own_props (JObj kvs) = kvs"
| "own_props v = []"

definition assign_key :: "JSONObject \<Rightarrow> string \<Rightarrow> JSONObject \<Rightarrow> JSONObject" where
  "assign_key source k target =
     (case map_of source k of None \<Rightarrow> target | Some v \<Rightarrow> AList.update k v target)"

definition utils_extend :: "json \<Rightarrow> JSONObject \<Rightarrow> json" where
  "utils_extend target source =
     JObj (fold (assign_key source) (map fst source) (own_props target))"

text \<open>
  What \<^verbatim>\<open>utils.ajaxRequest\<close> settles its promise with: a response, of which the
  code reads \<^verbatim>\<open>xhr.status\<close> and \<^verbatim>\<open>data\<close>, or a rejection of the transport.
\<close>

datatype ajax_result =
    AjaxResolve nat json
  | AjaxReject string

section \<open>ConfigSection\<close>

text \<open>
  The private fields of the class. \<^verbatim>\<open>_ajaxSettings\<close> is a reference to a
  settings object in the store; \<^verbatim>\<open>_data\<close> starts as \<^verbatim>\<open>null\<close>.
\<close>

record ConfigSection =
  the_url :: string
  the_data :: json
  the_ajaxSettings :: ref

record IOptions =
  name :: string
  baseUrl :: "string option"
  ajaxSettings :: "ref option"

text \<open>
  A request handed to \<^verbatim>\<open>utils.ajaxRequest\<close>: the url and the settings object as
  it is at the call.
\<close>

record request =
  req_url :: string
  req_settings :: JSONObject

text \<open>
  A pending promise: the request in flight and the \<^verbatim>\<open>then\<close> callback, which runs
  on the section as it is when the transport settles and gives the section after it
  and the promise's outcome (\<open>Inl\<close> a rejection, \<open>Inr\<close> the fulfilment value).
\<close>

record 'a promise =
  pending :: request
  on_settled :: "ajax_result \<Rightarrow> ConfigSection \<Rightarrow> ConfigSection \<times> (error + 'a)"

text \<open>\<^verbatim>\<open>get ajaxSettings()\<close>: \<^verbatim>\<open>return utils.copy(this._ajaxSettings)\<close>.\<close>

definition get_ajaxSettings :: "ConfigSection \<Rightarrow> heap \<Rightarrow> ref \<times> heap" where
  "get_ajaxSettings this h = utils_copy h (the_ajaxSettings this)"

text \<open>\<^verbatim>\<open>set ajaxSettings(value)\<close>: \<^verbatim>\<open>this._ajaxSettings = utils.copy(value)\<close>.\<close>

definition set_ajaxSettings :: "ref \<Rightarrow> ConfigSection \<Rightarrow> heap \<Rightarrow> ConfigSection \<times> heap" where
  "set_ajaxSettings v this h =
     (let (a, h') = utils_copy h v in (this\<lparr>the_ajaxSettings := a\<rparr>, h'))"

text \<open>
  The constructor. The url is built by three helpers of jupyter-js-utils
  (\<^verbatim>\<open>getBaseUrl\<close>, \<^verbatim>\<open>urlPathJoin\<close>, \<^verbatim>\<open>urlJoinEncode\<close>); \<open>mkurl\<close> stands for their
  composition on the base url and the name. \<^verbatim>\<open>options.ajaxSettings || {}\<close>
  allocates an empty object when no settings are given.
\<close>

definition new_ConfigSection ::
  "(string option \<Rightarrow> string \<Rightarrow> string) \<Rightarrow> IOptions \<Rightarrow> heap \<Rightarrow> ConfigSection \<times> heap" where
  "new_ConfigSection mkurl options h =
     (let this = \<lparr>the_url = ''unknown'', the_data = JNull, the_ajaxSettings = 0\<rparr>;
          (v, h1) = (case ajaxSettings options of
                       Some r \<Rightarrow> (r, h)
                     | None \<Rightarrow> alloc h []);
          (this1, h2) = set_ajaxSettings v this h1
      in (this1\<lparr>the_url := mkurl (baseUrl options) (name options)\<rparr>, h2))"

text \<open>The callback of \<^verbatim>\<open>load\<close>.\<close>

definition load_then :: "ajax_result \<Rightarrow> ConfigSection \<Rightarrow> ConfigSection \<times> (error + unit)" where
  "load_then res this =
     (case res of
        AjaxReject e \<Rightarrow> (this, Inl (Rejected e))
      | AjaxResolve status body \<Rightarrow>
          if status \<noteq> 200 then (this, Inl (Error (''Invalid Status: '' @ show_nat status)))
          else (this\<lparr>the_data := body\<rparr>, Inr ()))"

definition load :: "ConfigSection \<Rightarrow> heap \<Rightarrow> unit promise \<times> heap" where
  "load this h =
     (let (a, h1) = get_ajaxSettings this h;
          h2 = obj_set h1 a ''method'' (JStr ''GET'');
          h3 = obj_set h2 a ''dataType'' (JStr ''json'');
          h4 = obj_set h3 a ''cache'' (JBool False)
      in (\<lparr>pending = \<lparr>req_url = the_url this, req_settings = heap_get h4 a\<rparr>,
           on_settled = load_then\<rparr>, h4))"

text \<open>The callback of \<^verbatim>\<open>update\<close>.\<close>

definition update_then :: "ajax_result \<Rightarrow> ConfigSection \<Rightarrow> ConfigSection \<times> (error + json)" where
  "update_then res this =
     (case res of
        AjaxReject e \<Rightarrow> (this, Inl (Rejected e))
      | AjaxResolve status body \<Rightarrow>
          if status \<noteq> 200 then (this, Inl (Error (''Invalid Status: '' @ show_nat status)))
          else (this\<lparr>the_data := body\<rparr>, Inr body))"

text \<open>
  \<^verbatim>\<open>update(newdata)\<close>, up to the call of the transport: the section after the
  merge, the promise returned and the store. \<open>stringify\<close> stands for
  \<^verbatim>\<open>JSON.stringify\<close>.
\<close>

definition update ::
  "(json \<Rightarrow> string) \<Rightarrow> JSONObject \<Rightarrow> ConfigSection \<Rightarrow> heap
     \<Rightarrow> json promise \<times> ConfigSection \<times> heap" where
  "update stringify newdata this h =
     (let this1 = this\<lparr>the_data := utils_extend (the_data this) newdata\<rparr>;
          (a, h1) = get_ajaxSettings this1 h;
          h2 = obj_set h1 a ''method'' (JStr ''PATCH'');
          h3 = obj_set h2 a ''data'' (JStr (stringify (JObj newdata)));
          h4 = obj_set h3 a ''dataType'' (JStr ''json'');
          h5 = obj_set h4 a ''contentType'' (JStr ''application/json'')
      in (\<lparr>pending = \<lparr>req_url = the_url this1, req_settings = heap_get h5 a\<rparr>,
           on_settled = update_then\<rparr>, this1, h5))"

text \<open>
  \<^verbatim>\<open>getConfigSection(options)\<close>: the promise of \<^verbatim>\<open>load\<close>, fulfilled with the
  section itself.
\<close>

definition getConfigSection ::
  "(string option \<Rightarrow> string \<Rightarrow> string) \<Rightarrow> IOptions \<Rightarrow> heap
     \<Rightarrow> ConfigSection promise \<times> ConfigSection \<times> heap" where
  "getConfigSection mkurl options h =
     (let (section, h1) = new_ConfigSection mkurl options h;
          (p, h2) = load section h1
      in (\<lparr>pending = pending p,
           on_settled = (\<lambda>res this.
             case on_settled p res this of
               (this', Inl e) \<Rightarrow> (this', Inl e)
             | (this', Inr u) \<Rightarrow> (this', Inr this'))\<rparr>, section, h2))"

section \<open>ConfigWithDefaults\<close>

text \<open>
  \<^verbatim>\<open>_section\<close> is a reference to a section that others may hold too: every method
  takes the section as it is at the call. The constructor replaces missing
  defaults by \<^verbatim>\<open>{}\<close> and a missing class name by \<^verbatim>\<open>''\<close>.
\<close>

record ConfigWithDefaults =
  the_defaults :: JSONObject
  the_className :: string



text \<open>The code's \<^verbatim>\<open>x || {}\<close>.\<close>

definition or_empty :: "'n jsv \<Rightarrow> 'n jsv" where
  "or_empty v = (if truthy v then v else Json (JObj []))"

definition classData ::
  "'n runtime \<Rightarrow> ConfigWithDefaults \<Rightarrow> ConfigSection \<Rightarrow> error + 'n jsv" where
  "classData rt this section =
     (if the_className this \<noteq> [] then
        (case js_get rt (the_data section) (the_className this) of
           Inl e \<Rightarrow> Inl e
         | Inr v \<Rightarrow> Inr (or_empty v))
      else Inr (Json (the_data section)))"


text \<open>
  \<^verbatim>\<open>let d = {}; d[key] = value\<close>: the own properties of \<open>d\<close> after the
  assignment. It creates the property, except under the name \<^verbatim>\<open>__proto__\<close>,
  which \<^verbatim>\<open>Object.prototype\<close> holds as an accessor: its setter creates no
  property. (Given an object or \<^verbatim>\<open>null\<close>, the setter makes it the prototype of
  \<open>d\<close>; the own properties, which are what \<^verbatim>\<open>JSON.stringify\<close> writes, do not
  show that.)
\<close>

definition assign_fresh :: "string \<Rightarrow> json \<Rightarrow> JSONObject" where
  "assign_fresh key v = (if key = ''__proto__'' then [] else [(key, v)])"

definition set' ::
  "(json \<Rightarrow> string) \<Rightarrow> ConfigWithDefaults \<Rightarrow> string \<Rightarrow> json \<Rightarrow> ConfigSection \<Rightarrow> heap
     \<Rightarrow> json promise \<times> ConfigSection \<times> heap" where
  "set' stringify this key v section h =
     (let d = assign_fresh key v in
      if the_className this \<noteq> [] then
        (let d2 = assign_fresh (the_className this) (JObj d) in update stringify d2 section h)
      else update stringify d section h)"

section \<open>Histories of a section\<close>

text \<open>
  What can happen to one section, in any order: a call of \<^verbatim>\<open>load\<close> or
  \<^verbatim>\<open>update\<close>, which runs up to the call of the transport, and the settling of a
  request in flight, which runs the callback of its promise. Calls are not
  serialised by the code, so a history may interleave them freely.
\<close>

datatype event =
    CallLoad
  | CallUpdate JSONObject
  | LoadSettled ajax_result
  | UpdateSettled ajax_result

fun step :: "(json \<Rightarrow> string) \<Rightarrow> ConfigSection \<times> heap \<Rightarrow> event \<Rightarrow> ConfigSection \<times> heap" where
  "step stringify (this, h) CallLoad = (this, snd (load this h))"
| "step stringify (this, h) (CallUpdate newdata) = snd (update stringify newdata this h)"
| "step stringify (this, h) (LoadSettled res) = (fst (load_then res this), h)"
| "step stringify (this, h) (UpdateSettled res) = (fst (update_then res this), h)"

definition run ::
  "(json \<Rightarrow> string) \<Rightarrow> event list \<Rightarrow> ConfigSection \<times> heap \<Rightarrow> ConfigSection \<times> heap" where
  "run stringify evs st = foldl (step stringify) st evs"

text \<open>The body of a response with status 200 that an event delivers, if it is one.\<close>

fun success_body :: "event \<Rightarrow> json option" where
  "success_body (LoadSettled (AjaxResolve status body)) =
     (if status = 200 then Some body else None)"
| "success_body (UpdateSettled (AjaxResolve status body)) =
     (if status = 200 then Some body else None)"
| "success_body ev = None"

fun is_update_call :: "event \<Rightarrow> bool" where
  "is_update_call (CallUpdate newdata) = True"
| "is_update_call ev = False"

text \<open>The body of the most recent status-200 response of a history.\<close>

fun most_recent_success :: "event list \<Rightarrow> json option" where
  "most_recent_success [] = None"
| "most_recent_success (ev # evs) =
     (case most_recent_success evs of
        Some b \<Rightarrow> Some b
      | None \<Rightarrow> success_body ev)"

section \<open>The scoped lookup, as the specification words it\<close>


section \<open>Facts about the helpers\<close>

lemma show_nat_201: "show_nat 201 = ''201''"
  by (simp add: show_nat.simps digit_def)

lemma map_of_fold_assign_key:
  "map_of (fold (assign_key s) ks t) k =
     (if k \<in> set ks then (case map_of s k of Some v \<Rightarrow> Some v | None \<Rightarrow> map_of t k)
      else map_of t k)"
  by (induction ks arbitrary: t) (auto simp: assign_key_def update_conv' split: option.splits)

lemma own_property_utils_extend:
  "own_property (utils_extend t s) k =
     Inr (case map_of s k of Some v \<Rightarrow> Some v | None \<Rightarrow> map_of (own_props t) k)"
proof (cases "k \<in> fst ` set s")
  case True
  then show ?thesis by (simp add: utils_extend_def map_of_fold_assign_key)
next
  case False
  then have "map_of s k = None" by (simp add: map_of_eq_None_iff)
  with False show ?thesis by (simp add: utils_extend_def map_of_fold_assign_key)
qed

lemma update_section:
  "fst (snd (update stringify newdata this h)) =
     this\<lparr>the_data := utils_extend (the_data this) newdata\<rparr>"
  by (simp add: update_def Let_def split: prod.splits)

lemma update_callback: "on_settled (fst (update stringify newdata this h)) = update_then"
  by (simp add: update_def Let_def split: prod.splits)

lemma load_callback: "on_settled (fst (load this h)) = load_then"
  by (simp add: load_def Let_def split: prod.splits)

lemma obj_set_alloc: "obj_set (h @ [obj]) (length h) k v = h @ [AList.update k v obj]"
  by (simp add: obj_set_def)

lemma heap_get_alloc: "heap_get (h @ [obj]) (length h) = obj"
  by (simp add: heap_get_def)

lemma update_request:
  "pending (fst (update stringify newdata this h)) =
     \<lparr>req_url = the_url this,
      req_settings =
        AList.update ''contentType'' (JStr ''application/json'')
          (AList.update ''dataType'' (JStr ''json'')
            (AList.update ''data'' (JStr (stringify (JObj newdata)))
              (AList.update ''method'' (JStr ''PATCH'')
                (heap_get h (the_ajaxSettings this)))))\<rparr>"
  by (simp add: update_def get_ajaxSettings_def utils_copy_def alloc_def obj_set_alloc
      heap_get_alloc)

lemma length_obj_set: "length (obj_set h a k v) = length h"
  by (simp add: obj_set_def)

lemma heap_get_obj_set_other: "a \<noteq> r \<Longrightarrow> heap_get (obj_set h a k v) r = heap_get h r"
  by (simp add: obj_set_def heap_get_def)

lemma heap_get_obj_set_all_other:
  "a \<noteq> r \<Longrightarrow> heap_get (obj_set_all h a kvs) r = heap_get h r"
  by (induction h a kvs rule: obj_set_all.induct) (simp_all add: heap_get_obj_set_other)

lemma update_payload_section:
  "own_property (the_data (fst (snd (update stringify [(c, x)] section h)))) c = Inr (Some x)"
  by (simp add: update_section own_property_utils_extend)

lemma step_keeps_data:
  "success_body ev = None \<Longrightarrow> \<not> is_update_call ev \<Longrightarrow>
     the_data (fst (step stringify st ev)) = the_data (fst st)"
  by (cases st; cases ev)
     (auto simp: load_then_def update_then_def split: ajax_result.splits if_splits)

lemma step_success_data:
  "success_body ev = Some b \<Longrightarrow> the_data (fst (step stringify st ev)) = b"
  by (cases st; cases ev)
     (auto simp: load_then_def update_then_def split: ajax_result.splits if_splits)

lemma foldl_keeps_data:
  "\<forall>e\<in>set post. success_body e = None \<and> \<not> is_update_call e \<Longrightarrow>
     the_data (fst (foldl (step stringify) st post)) = the_data (fst st)"
  by (induction post arbitrary: st) (simp_all add: step_keeps_data)

lemma most_recent_success_append:
  "most_recent_success (pre @ post) =
     (case most_recent_success post of Some b \<Rightarrow> Some b | None \<Rightarrow> most_recent_success pre)"
  by (induction pre) (auto split: option.splits)

lemma most_recent_success_none:
  "\<forall>e\<in>set post. success_body e = None \<Longrightarrow> most_recent_success post = None"
  by (induction post) simp_all

lemma data_step:
  "the_data (fst (step stringify st ev)) =
     (case ev of
        CallLoad \<Rightarrow> the_data (fst st)
      | CallUpdate newdata \<Rightarrow> utils_extend (the_data (fst st)) newdata
      | LoadSettled res \<Rightarrow> the_data (fst (load_then res (fst st)))
      | UpdateSettled res \<Rightarrow> the_data (fst (update_then res (fst st))))"
  by (cases st; cases ev) (simp_all add: update_section)


lemma getConfigSection_fulfilled:
  assumes "on_settled (fst (getConfigSection mkurl options h)) res s = (s', Inr section)"
  shows "\<exists>body. res = AjaxResolve 200 body \<and> section = s\<lparr>the_data := body\<rparr> \<and> s' = section"
proof -
  have "on_settled (fst (getConfigSection mkurl options h)) res s =
          (case load_then res s of
             (this', Inl e) \<Rightarrow> (this', Inl e)
           | (this', Inr u) \<Rightarrow> (this', Inr this'))"
    by (simp add: getConfigSection_def case_prod_beta load_callback split: sum.splits)
  with assms show ?thesis
    by (cases res) (auto simp: load_then_def split: if_splits)
qed

lemma new_ConfigSection_ref:
  "the_ajaxSettings (fst (new_ConfigSection mkurl options h))
     < length (snd (new_ConfigSection mkurl options h))"
  by (simp add: new_ConfigSection_def set_ajaxSettings_def utils_copy_def alloc_def
      split: option.splits)

lemma step_ref:
  "the_ajaxSettings (fst st) < length (snd st) \<Longrightarrow>
     the_ajaxSettings (fst (step stringify st ev)) < length (snd (step stringify st ev))"
  by (cases st; cases ev)
     (auto simp: load_def update_def get_ajaxSettings_def utils_copy_def alloc_def
        length_obj_set load_then_def update_then_def Let_def split: ajax_result.splits)

lemma js_get_own: "own_property obj k = Inr (Some v) \<Longrightarrow> js_get rt obj k = Inr (Json v)"
  by (simp add: js_get_def)








lemma set'_payload:
  "key \<noteq> ''__proto__'' \<Longrightarrow> the_className this \<noteq> ''__proto__'' \<Longrightarrow>
     set' stringify this key v section h =
       update stringify
         (if the_className this \<noteq> [] then [(the_className this, JObj [(key, v)])]
          else [(key, v)]) section h"
  by (simp add: set'_def assign_fresh_def)

section \<open>Status codes\<close>

text \<open>
  C3. Whatever section the callback of a \<^verbatim>\<open>load\<close> or of an \<^verbatim>\<open>update\<close> finds when
  the response arrives: a status other than 200 rejects the promise with the
  error whose message is \<^verbatim>\<open>Invalid Status: \<close> followed by the status in decimal,
  and leaves the section as it is; status 200 fulfils the promise (of \<^verbatim>\<open>update\<close>
  with the body) and stores the body as the data.
\<close>

theorem C3_invalid_status:
  "on_settled (fst (load this h)) (AjaxResolve status body) s =
     (if status = 200 then (s\<lparr>the_data := body\<rparr>, Inr ())
      else (s, Inl (Error (''Invalid Status: '' @ show_nat status))))
   \<and> on_settled (fst (update stringify newdata this h)) (AjaxResolve status body) s =
     (if status = 200 then (s\<lparr>the_data := body\<rparr>, Inr body)
      else (s, Inl (Error (''Invalid Status: '' @ show_nat status))))"
  by (simp add: load_callback update_callback load_then_def update_then_def)

theorem C3_invalid_status_witness:
  "on_settled (fst (load \<lparr>the_url = ''u'', the_data = JNull, the_ajaxSettings = 0\<rparr> [[]]))
       (AjaxResolve 201 (JObj []))
       \<lparr>the_url = ''u'', the_data = JNull, the_ajaxSettings = 0\<rparr>
     = (\<lparr>the_url = ''u'', the_data = JNull, the_ajaxSettings = 0\<rparr>,
        Inl (Error ''Invalid Status: 201''))
   \<and> on_settled (fst (update (\<lambda>j. []) [(''foo'', JStr ''baz'')]
          \<lparr>the_url = ''u'', the_data = JObj [], the_ajaxSettings = 0\<rparr> [[]]))
       (AjaxResolve 201 (JObj []))
       \<lparr>the_url = ''u'', the_data = JObj [(''foo'', JStr ''baz'')], the_ajaxSettings = 0\<rparr>
     = (\<lparr>the_url = ''u'', the_data = JObj [(''foo'', JStr ''baz'')], the_ajaxSettings = 0\<rparr>,
        Inl (Error ''Invalid Status: 201''))"
  using C3_invalid_status
    [of "\<lparr>the_url = ''u'', the_data = JNull, the_ajaxSettings = 0\<rparr>" "[[]]" 201 "JObj []"
        "\<lparr>the_url = ''u'', the_data = JNull, the_ajaxSettings = 0\<rparr>"]
    C3_invalid_status
    [of "\<lparr>the_url = ''u'', the_data = JObj [], the_ajaxSettings = 0\<rparr>" "[[]]" 201 "JObj []"
        "\<lparr>the_url = ''u'', the_data = JObj [(''foo'', JStr ''baz'')], the_ajaxSettings = 0\<rparr>"
        "\<lambda>j. []" "[(''foo'', JStr ''baz'')]"]
  by (simp add: show_nat_201)

section \<open>The optimistic merge of update\<close>

text \<open>
  C4. For a section whose data is the object \<open>d\<close> and every partial object \<open>p\<close>,
  the section that \<^verbatim>\<open>update(p)\<close> leaves when it returns, before any response and
  whatever the response will be, holds the shallow merge of \<open>p\<close> onto \<open>d\<close>: a key
  of \<open>p\<close> reads as its value in \<open>p\<close>, every other key reads as in \<open>d\<close>.
\<close>

theorem C4_optimistic_merge:
  "the_data this = JObj d \<Longrightarrow>
     (map_of p k = Some v \<longrightarrow>
        own_property (the_data (fst (snd (update stringify p this h)))) k = Inr (Some v))
     \<and> (map_of p k = None \<longrightarrow>
        own_property (the_data (fst (snd (update stringify p this h)))) k = Inr (map_of d k))"
  by (simp add: update_section own_property_utils_extend)

theorem C4_optimistic_merge_witness:
  "own_property (the_data (fst (snd (update (\<lambda>j. [])
       [(''b'', JNum 3), (''c'', JNull)]
       \<lparr>the_url = ''u'', the_data = JObj [(''a'', JNum 1), (''b'', JNum 2)],
         the_ajaxSettings = 0\<rparr> [[]])))) ''b'' = Inr (Some (JNum 3))
   \<and> own_property (the_data (fst (snd (update (\<lambda>j. [])
       [(''b'', JNum 3), (''c'', JNull)]
       \<lparr>the_url = ''u'', the_data = JObj [(''a'', JNum 1), (''b'', JNum 2)],
         the_ajaxSettings = 0\<rparr> [[]])))) ''a'' = Inr (Some (JNum 1))"
  using C4_optimistic_merge
      [of "\<lparr>the_url = ''u'', the_data = JObj [(''a'', JNum 1), (''b'', JNum 2)],
            the_ajaxSettings = 0\<rparr>" "[(''a'', JNum 1), (''b'', JNum 2)]"
          "[(''b'', JNum 3), (''c'', JNull)]" "''b''" "JNum 3" "\<lambda>j. []" "[[]]"]
    C4_optimistic_merge
      [of "\<lparr>the_url = ''u'', the_data = JObj [(''a'', JNum 1), (''b'', JNum 2)],
            the_ajaxSettings = 0\<rparr>" "[(''a'', JNum 1), (''b'', JNum 2)]"
          "[(''b'', JNum 3), (''c'', JNull)]" "''a''" "JNum 3" "\<lambda>j. []" "[[]]"]
  by simp

text \<open>
  C2. When the server answers an \<^verbatim>\<open>update\<close> with a status other than 200, the
  promise is rejected and the merge made before the request stays: after the
  rejection the data is still the merge of the partial object onto the old data.
\<close>

theorem C2_no_rollback:
  "status \<noteq> 200 \<Longrightarrow>
     snd (on_settled (fst (update stringify newdata this h)) (AjaxResolve status body)
            (fst (snd (update stringify newdata this h))))
       = Inl (Error (''Invalid Status: '' @ show_nat status))
     \<and> the_data (fst (on_settled (fst (update stringify newdata this h))
            (AjaxResolve status body) (fst (snd (update stringify newdata this h)))))
       = utils_extend (the_data this) newdata"
  by (simp add: update_callback update_section update_then_def)

theorem C2_no_rollback_witness:
  "(201::nat) \<noteq> 200
   \<and> snd (on_settled
        (fst (update (\<lambda>j. []) [(''foo'', JStr ''baz'')]
               \<lparr>the_url = ''u'', the_data = JObj [], the_ajaxSettings = 0\<rparr> [[]]))
        (AjaxResolve 201 (JObj []))
        (fst (snd (update (\<lambda>j. []) [(''foo'', JStr ''baz'')]
               \<lparr>the_url = ''u'', the_data = JObj [], the_ajaxSettings = 0\<rparr> [[]]))))
       = Inl (Error ''Invalid Status: 201'')
   \<and> the_data (fst (on_settled
        (fst (update (\<lambda>j. []) [(''foo'', JStr ''baz'')]
               \<lparr>the_url = ''u'', the_data = JObj [], the_ajaxSettings = 0\<rparr> [[]]))
        (AjaxResolve 201 (JObj []))
        (fst (snd (update (\<lambda>j. []) [(''foo'', JStr ''baz'')]
               \<lparr>the_url = ''u'', the_data = JObj [], the_ajaxSettings = 0\<rparr> [[]])))))
       = JObj [(''foo'', JStr ''baz'')]"
  using C2_no_rollback [of 201 "\<lambda>j. []" "[(''foo'', JStr ''baz'')]"
      "\<lparr>the_url = ''u'', the_data = JObj [], the_ajaxSettings = 0\<rparr>" "[[]]" "JObj []"]
  by (simp add: show_nat_201 utils_extend_def assign_key_def)

text \<open>
  C5. The \<^verbatim>\<open>data\<close> setting of the PATCH request of \<^verbatim>\<open>update(newdata)\<close> is the
  serialisation of \<open>newdata\<close> alone, whatever the section's data; on a response
  with status 200 the data is replaced by the body and the promise is fulfilled
  with that body.
\<close>

theorem C5_patch_body:
  "map_of (req_settings (pending (fst (update stringify newdata this h)))) ''data''
     = Some (JStr (stringify (JObj newdata)))
   \<and> map_of (req_settings (pending (fst (update stringify newdata this h)))) ''method''
     = Some (JStr ''PATCH'')
   \<and> on_settled (fst (update stringify newdata this h)) (AjaxResolve 200 body) s
     = (s\<lparr>the_data := body\<rparr>, Inr body)"
  by (simp add: update_request update_callback update_then_def update_conv')

theorem C5_patch_body_witness:
  "map_of (req_settings (pending (fst (update
       (\<lambda>j. concat (map fst (own_props j))) [(''foo'', JStr ''baz'')]
       \<lparr>the_url = ''u'', the_data = JObj [(''spam'', JStr ''eggs'')],
         the_ajaxSettings = 0\<rparr> [[]])))) ''data''
     = Some (JStr ''foo'')
   \<and> on_settled (fst (update
       (\<lambda>j. concat (map fst (own_props j))) [(''foo'', JStr ''baz'')]
       \<lparr>the_url = ''u'', the_data = JObj [(''spam'', JStr ''eggs'')],
         the_ajaxSettings = 0\<rparr> [[]]))
       (AjaxResolve 200 (JObj [(''x'', JNum 1)]))
       \<lparr>the_url = ''u'', the_data = JObj [(''spam'', JStr ''eggs''), (''foo'', JStr ''baz'')],
         the_ajaxSettings = 0\<rparr>
     = (\<lparr>the_url = ''u'', the_data = JObj [(''x'', JNum 1)], the_ajaxSettings = 0\<rparr>,
        Inr (JObj [(''x'', JNum 1)]))"
  using C5_patch_body
      [of "\<lambda>j. concat (map fst (own_props j))" "[(''foo'', JStr ''baz'')]"
          "\<lparr>the_url = ''u'', the_data = JObj [(''spam'', JStr ''eggs'')],
            the_ajaxSettings = 0\<rparr>" "[[]]" "JObj [(''x'', JNum 1)]"
          "\<lparr>the_url = ''u'',
            the_data = JObj [(''spam'', JStr ''eggs''), (''foo'', JStr ''baz'')],
            the_ajaxSettings = 0\<rparr>"]
  by simp

section \<open>Reading through ConfigWithDefaults\<close>






section \<open>Writing through ConfigWithDefaults\<close>

text \<open>
  C7, as the code has it. For a key and a class name other than \<^verbatim>\<open>__proto__\<close>,
  \<^verbatim>\<open>set(key, value)\<close> is the call of the section's \<^verbatim>\<open>update\<close> with the payload
  \<^verbatim>\<open>{key: value}\<close>, or \<^verbatim>\<open>{className: {key: value}}\<close> when a class name is set,
  and returns what that call returns; with a class name, the section that \<^verbatim>\<open>set\<close>
  leaves when it returns has \<^verbatim>\<open>data[className][key]\<close> equal to the value.
\<close>

theorem C7_set_delegates:
  "key \<noteq> ''__proto__'' \<Longrightarrow> the_className this \<noteq> ''__proto__'' \<Longrightarrow>
     set' stringify this key v section h =
       update stringify
         (if the_className this \<noteq> [] then [(the_className this, JObj [(key, v)])]
          else [(key, v)]) section h
     \<and> (the_className this \<noteq> [] \<longrightarrow>
          js_get rt (the_data (fst (snd (set' stringify this key v section h))))
            (the_className this) = Inr (Json (JObj [(key, v)]))
          \<and> js_get rt (JObj [(key, v)]) key = Inr (Json v))"
  by (simp add: set'_payload update_payload_section js_get_own)

theorem C7_set_delegates_witness:
  "js_get example_runtime (the_data (fst (snd (set' (\<lambda>j. [])
       \<lparr>the_defaults = [], the_className = ''testclass''\<rparr> ''foo'' (JStr ''bar'')
       \<lparr>the_url = ''u'', the_data = JObj [], the_ajaxSettings = 0\<rparr> [[]])))) ''testclass''
     = Inr (Json (JObj [(''foo'', JStr ''bar'')]))
   \<and> js_get example_runtime (JObj [(''foo'', JStr ''bar'')]) ''foo''
     = Inr (Json (JStr ''bar''))"
  using C7_set_delegates
      [of "''foo''" "\<lparr>the_defaults = [], the_className = ''testclass''\<rparr>" "\<lambda>j. []"
          "JStr ''bar''" "\<lparr>the_url = ''u'', the_data = JObj [], the_ajaxSettings = 0\<rparr>" "[[]]"
          example_runtime]
  by auto

text \<open>
  C7, as the claim states it, fails at the key \<^verbatim>\<open>__proto__\<close>: the assignment
  \<^verbatim>\<open>d[key] = value\<close> creates no property, so without a class name
  \<^verbatim>\<open>set('__proto__', 'bar')\<close> calls \<^verbatim>\<open>update\<close> with the payload \<^verbatim>\<open>{}\<close>, which
  is not the call with a payload that has the key, and leaves the data \<^verbatim>\<open>{}\<close> as
  it was.
\<close>

theorem C7_set_proto_counterexample:
  "set' (\<lambda>j. []) \<lparr>the_defaults = [], the_className = ''''\<rparr> ''__proto__'' (JStr ''bar'')
       \<lparr>the_url = ''u'', the_data = JObj [], the_ajaxSettings = 0\<rparr> [[]]
     = update (\<lambda>j. []) []
         \<lparr>the_url = ''u'', the_data = JObj [], the_ajaxSettings = 0\<rparr> [[]]
   \<and> set' (\<lambda>j. []) \<lparr>the_defaults = [], the_className = ''''\<rparr> ''__proto__'' (JStr ''bar'')
       \<lparr>the_url = ''u'', the_data = JObj [], the_ajaxSettings = 0\<rparr> [[]]
     \<noteq> update (\<lambda>j. []) [(''__proto__'', JStr ''bar'')]
         \<lparr>the_url = ''u'', the_data = JObj [], the_ajaxSettings = 0\<rparr> [[]]
   \<and> the_data (fst (snd (set' (\<lambda>j. []) \<lparr>the_defaults = [], the_className = ''''\<rparr>
       ''__proto__'' (JStr ''bar'')
       \<lparr>the_url = ''u'', the_data = JObj [], the_ajaxSettings = 0\<rparr> [[]])))
     = JObj []"
proof -
  have "the_data (fst (snd (update (\<lambda>j. []) []
          \<lparr>the_url = ''u'', the_data = JObj [], the_ajaxSettings = 0\<rparr> [[]]))) = JObj []"
    by (simp add: update_section utils_extend_def)
  moreover have "the_data (fst (snd (update (\<lambda>j. []) [(''__proto__'', JStr ''bar'')]
          \<lparr>the_url = ''u'', the_data = JObj [], the_ajaxSettings = 0\<rparr> [[]])))
      = JObj [(''__proto__'', JStr ''bar'')]"
    by (simp add: update_section utils_extend_def assign_key_def)
  ultimately show ?thesis
    by (auto simp: set'_def assign_fresh_def)
qed

text \<open>
  C10, as the code has it. With a class name set, and a key and a class name other
  than \<^verbatim>\<open>__proto__\<close>, the section that \<^verbatim>\<open>set(key, value)\<close> leaves when it returns
  has, as \<^verbatim>\<open>data[className]\<close> and as its class data, the object with the single
  property \<^verbatim>\<open>key: value\<close>: no other key that \<^verbatim>\<open>data[className]\<close> held is a
  property of it, until a response with status 200 replaces the data by its body.
\<close>

theorem C10_set_replaces_class_object:
  "the_className this \<noteq> [] \<Longrightarrow> key \<noteq> ''__proto__'' \<Longrightarrow>
   the_className this \<noteq> ''__proto__'' \<Longrightarrow>
     own_property (the_data (fst (snd (set' stringify this key v section h))))
         (the_className this) = Inr (Some (JObj [(key, v)]))
     \<and> classData rt this (fst (snd (set' stringify this key v section h)))
         = Inr (Json (JObj [(key, v)]))
     \<and> (k \<noteq> key \<longrightarrow> own_property (JObj [(key, v)]) k = Inr None)
     \<and> on_settled (fst (set' stringify this key v section h)) (AjaxResolve 200 body)
          (fst (snd (set' stringify this key v section h)))
        = ((fst (snd (set' stringify this key v section h)))\<lparr>the_data := body\<rparr>, Inr body)"
  by (simp add: set'_payload classData_def or_empty_def update_payload_section js_get_own
      update_callback update_then_def)

theorem C10_set_replaces_class_object_witness:
  "classData example_runtime \<lparr>the_defaults = [], the_className = ''testclass''\<rparr>
     (fst (snd (set' (\<lambda>j. [])
       \<lparr>the_defaults = [], the_className = ''testclass''\<rparr> ''foo'' (JStr ''bar'')
       \<lparr>the_url = ''u'',
         the_data = JObj [(''testclass'', JObj [(''spam'', JStr ''eggs'')])],
         the_ajaxSettings = 0\<rparr> [[]])))
     = Inr (Json (JObj [(''foo'', JStr ''bar'')]))
   \<and> own_property (JObj [(''foo'', JStr ''bar'')]) ''spam'' = Inr None"
  using C10_set_replaces_class_object
      [of "\<lparr>the_defaults = [], the_className = ''testclass''\<rparr>" "''foo''" "\<lambda>j. []"
          "JStr ''bar''"
          "\<lparr>the_url = ''u'',
            the_data = JObj [(''testclass'', JObj [(''spam'', JStr ''eggs'')])],
            the_ajaxSettings = 0\<rparr>" "[[]]" example_runtime "''spam''" "JObj []"]
  by simp

text \<open>
  C10, as the claim states it, fails at the key \<^verbatim>\<open>__proto__\<close>: after
  \<^verbatim>\<open>set('__proto__', 'bar')\<close> under the class name \<^verbatim>\<open>testclass\<close>, the object at
  \<^verbatim>\<open>data.testclass\<close> has no property, so it is not the object with that key.
\<close>

theorem C10_set_proto_counterexample:
  "own_property (the_data (fst (snd (set' (\<lambda>j. [])
       \<lparr>the_defaults = [], the_className = ''testclass''\<rparr> ''__proto__'' (JStr ''bar'')
       \<lparr>the_url = ''u'',
         the_data = JObj [(''testclass'', JObj [(''spam'', JStr ''eggs'')])],
         the_ajaxSettings = 0\<rparr> [[]])))) ''testclass''
     = Inr (Some (JObj []))
   \<and> JObj [] \<noteq> JObj [(''__proto__'', JStr ''bar'')]"
  by (simp add: set'_def assign_fresh_def update_payload_section)

section \<open>The transport settings\<close>

text \<open>
  C9. For a section whose settings are an allocated object and an allocated
  object \<open>v\<close>: reading \<^verbatim>\<open>ajaxSettings\<close> gives a new object with the properties
  of the internal one, and whatever is then assigned to properties of that object,
  the internal settings read as before; writing \<^verbatim>\<open>ajaxSettings = v\<close> stores a new
  object with the properties of \<open>v\<close>, and whatever is then assigned to properties
  of \<open>v\<close>, the internal settings read as \<open>v\<close> did at the write.
\<close>

theorem C9_ajaxSettings_copied:
  assumes "the_ajaxSettings this < length h" and "v < length h"
  shows "heap_get (snd (get_ajaxSettings this h)) (fst (get_ajaxSettings this h))
           = heap_get h (the_ajaxSettings this)
       \<and> heap_get (obj_set_all (snd (get_ajaxSettings this h))
                     (fst (get_ajaxSettings this h)) kvs)
            (the_ajaxSettings this)
           = heap_get h (the_ajaxSettings this)
       \<and> heap_get (snd (set_ajaxSettings v this h))
            (the_ajaxSettings (fst (set_ajaxSettings v this h)))
           = heap_get h v
       \<and> heap_get (obj_set_all (snd (set_ajaxSettings v this h)) v kvs)
            (the_ajaxSettings (fst (set_ajaxSettings v this h)))
           = heap_get h v"
proof -
  have fresh: "fst (get_ajaxSettings this h) = length h"
    and grown: "snd (get_ajaxSettings this h) = h @ [heap_get h (the_ajaxSettings this)]"
    by (simp_all add: get_ajaxSettings_def utils_copy_def alloc_def)
  have stored: "the_ajaxSettings (fst (set_ajaxSettings v this h)) = length h"
    and grown': "snd (set_ajaxSettings v this h) = h @ [heap_get h v]"
    by (simp_all add: set_ajaxSettings_def utils_copy_def alloc_def)
  from assms have apart: "length h \<noteq> the_ajaxSettings this" "v \<noteq> length h"
    by simp_all
  have kept: "heap_get (h @ [obj]) (the_ajaxSettings this) = heap_get h (the_ajaxSettings this)"
    for obj using assms(1) by (simp add: heap_get_def nth_append)
  show ?thesis
    by (simp add: fresh grown stored grown' heap_get_alloc kept
        heap_get_obj_set_all_other [OF apart(1)] heap_get_obj_set_all_other [OF apart(2)])
qed

theorem C9_ajaxSettings_copied_witness:
  "heap_get (obj_set_all
       (snd (get_ajaxSettings \<lparr>the_url = ''u'', the_data = JNull, the_ajaxSettings = 1\<rparr>
               [[(''timeout'', JNum 5)], [(''cache'', JBool True)]]))
       (fst (get_ajaxSettings \<lparr>the_url = ''u'', the_data = JNull, the_ajaxSettings = 1\<rparr>
               [[(''timeout'', JNum 5)], [(''cache'', JBool True)]]))
       [(''method'', JStr ''GET''), (''cache'', JBool False)]) 1
     = [(''cache'', JBool True)]
   \<and> heap_get (obj_set_all
       (snd (set_ajaxSettings 0 \<lparr>the_url = ''u'', the_data = JNull, the_ajaxSettings = 1\<rparr>
               [[(''timeout'', JNum 5)], [(''cache'', JBool True)]]))
       0 [(''method'', JStr ''GET''), (''cache'', JBool False)])
       (the_ajaxSettings
         (fst (set_ajaxSettings 0 \<lparr>the_url = ''u'', the_data = JNull, the_ajaxSettings = 1\<rparr>
               [[(''timeout'', JNum 5)], [(''cache'', JBool True)]])))
     = [(''timeout'', JNum 5)]"
  using C9_ajaxSettings_copied
      [of "\<lparr>the_url = ''u'', the_data = JNull, the_ajaxSettings = 1\<rparr>"
          "[[(''timeout'', JNum 5)], [(''cache'', JBool True)]]" 0
          "[(''method'', JStr ''GET''), (''cache'', JBool False)]"]
  by (simp add: heap_get_def)

section \<open>The data after a history\<close>

text \<open>
  C1, as the code has it. After any history in which, since the most recent
  response with status 200 was handled, no \<^verbatim>\<open>update\<close> has been called, the data
  is the body of that response. The handling of any other outcome of a request (a
  status other than 200, a rejection of the transport) leaves the data as it finds
  it.
\<close>

theorem C1_data_after_history:
  "success_body ev = Some b \<Longrightarrow>
   \<forall>e\<in>set post. success_body e = None \<and> \<not> is_update_call e \<Longrightarrow>
     most_recent_success (pre @ ev # post) = Some b
     \<and> the_data (fst (run stringify (pre @ ev # post) st)) = b
     \<and> (success_body ev' = None \<and> \<not> is_update_call ev' \<longrightarrow>
          the_data (fst (step stringify st' ev')) = the_data (fst st'))"
proof (intro conjI impI)
  assume ok: "success_body ev = Some b"
    and quiet: "\<forall>e\<in>set post. success_body e = None \<and> \<not> is_update_call e"
  from quiet have "most_recent_success post = None"
    by (simp add: most_recent_success_none)
  with ok show "most_recent_success (pre @ ev # post) = Some b"
    by (simp add: most_recent_success_append)
  have "the_data (fst (run stringify (pre @ ev # post) st))
          = the_data (fst (step stringify (foldl (step stringify) st pre) ev))"
    using quiet by (simp add: run_def foldl_keeps_data)
  also have "\<dots> = b"
    using ok by (rule step_success_data)
  finally show "the_data (fst (run stringify (pre @ ev # post) st)) = b" .
next
  assume "success_body ev' = None \<and> \<not> is_update_call ev'"
  then show "the_data (fst (step stringify st' ev')) = the_data (fst st')"
    by (simp add: step_keeps_data)
qed

theorem C1_data_after_history_witness:
  "the_data (fst (run (\<lambda>j. [])
       [CallLoad, LoadSettled (AjaxResolve 200 (JObj [(''foo'', JStr ''bar'')])),
        CallLoad, LoadSettled (AjaxResolve 201 (JObj []))]
       (new_ConfigSection (\<lambda>b n. n)
          \<lparr>name = ''test'', baseUrl = None, ajaxSettings = None\<rparr> [])))
     = JObj [(''foo'', JStr ''bar'')]"
  using C1_data_after_history
      [of "LoadSettled (AjaxResolve 200 (JObj [(''foo'', JStr ''bar'')]))"
          "JObj [(''foo'', JStr ''bar'')]"
          "[CallLoad, LoadSettled (AjaxResolve 201 (JObj []))]"
          "[CallLoad]" "\<lambda>j. []"
          "new_ConfigSection (\<lambda>b n. n)
             \<lparr>name = ''test'', baseUrl = None, ajaxSettings = None\<rparr> []"]
  by simp

text \<open>
  C1, as the claim states it, fails: after a load answered with 200 and the body
  \<^verbatim>\<open>{}\<close>, and an \<^verbatim>\<open>update({foo: 'baz'})\<close> answered with 201, the most recent
  successful body is \<^verbatim>\<open>{}\<close> and the data is \<^verbatim>\<open>{foo: 'baz'}\<close>.
\<close>

theorem C1_most_recent_response_counterexample:
  "most_recent_success
       [CallLoad, LoadSettled (AjaxResolve 200 (JObj [])),
        CallUpdate [(''foo'', JStr ''baz'')], UpdateSettled (AjaxResolve 201 (JObj []))]
     = Some (JObj [])
   \<and> the_data (fst (run (\<lambda>j. [])
       [CallLoad, LoadSettled (AjaxResolve 200 (JObj [])),
        CallUpdate [(''foo'', JStr ''baz'')], UpdateSettled (AjaxResolve 201 (JObj []))]
       (new_ConfigSection (\<lambda>b n. n)
          \<lparr>name = ''test'', baseUrl = None, ajaxSettings = None\<rparr> [])))
     = JObj [(''foo'', JStr ''baz'')]
   \<and> JObj [(''foo'', JStr ''baz'')] \<noteq> JObj []"
  by (simp add: run_def data_step load_then_def update_then_def utils_extend_def
      assign_key_def)

end
